theory Spec2Isabelle
  imports Complex_Main
begin

section \<open>Data model of cdp_platform.py\<close>

text \<open>
  Conventions of the embedding.
  \<^item> A Python \<open>str\<close> is a \<open>string\<close>.
  \<^item> A naive \<open>datetime\<close> is the number of microseconds since a fixed origin, an
    \<open>int\<close>; \<open>datetime.now()\<close> is a parameter of every function that reads the clock.
  \<^item> A Python number (\<open>float\<close>, or the \<open>int\<close> the demo stores in
    \<open>lifetime_value\<close>) is a \<open>real\<close>: arithmetic is exact, rounding is not modelled.
  \<^item> \<open>Any\<close> is the type parameter \<open>'a\<close>.
  \<^item> A \<open>dict\<close> is a map; a \<open>dict\<close> whose keys are fixed at construction and never
    removed (the segment index) is a total function.
  \<^item> Logging is not modelled.
\<close>

datatype CustomerSegment = HIGH_VALUE | AT_RISK | ACTIVE | DORMANT | NEW

fun segment_value :: "CustomerSegment \<Rightarrow> string" where
  "segment_value HIGH_VALUE = ''high_value''"
| "segment_value AT_RISK = ''at_risk''"
| "segment_value ACTIVE = ''active''"
| "segment_value DORMANT = ''dormant''"
| "segment_value NEW = ''new''"

type_synonym datetime = int

record 'a Customer =
  customer_id :: string
  email :: string
  name :: string
  attributes :: "string \<rightharpoonup> 'a"
  events :: "(string \<rightharpoonup> 'a) list"
  segments :: "CustomerSegment list"
  lifetime_value :: real
  last_activity :: "datetime option"
  created_at :: datetime

text \<open>
  \<open>(a - b).days\<close> for two datetimes: a \<open>timedelta\<close> is normalised so that its
  seconds and microseconds are non-negative, hence \<open>days\<close> is the floor of the
  difference in days (\<open>timedelta(microseconds=-1).days == -1\<close>).
\<close>

definition days :: "datetime \<Rightarrow> datetime \<Rightarrow> int" where
  "days a b = (a - b) div 86400000000"

text \<open>
  The error taxonomy of the design. The source has no \<open>raise\<close> statement; the
  operations whose failure is discussed return \<open>error + state\<close> and every branch of
  theirs is an \<open>Inr\<close>.
\<close>

datatype error = NotFound | InvalidArgument | ConsistencyViolation

section \<open>UnifiedProfileEngine\<close>

record 'a UnifiedProfileEngine =
  profiles :: "string \<rightharpoonup> 'a Customer"
  identity_graph :: "string \<rightharpoonup> string set"

definition new_UnifiedProfileEngine :: "'a UnifiedProfileEngine" where
  "new_UnifiedProfileEngine = \<lparr>profiles = Map.empty, identity_graph = Map.empty\<rparr>"

text \<open>
  \<open>hashlib.md5(email.encode()).hexdigest()\<close> is library code: the hash is the
  parameter \<open>md5_hexdigest\<close>.
\<close>

definition merge_identities ::
  "(string \<Rightarrow> string) \<Rightarrow> string \<Rightarrow> string \<Rightarrow> string \<Rightarrow>
   'a UnifiedProfileEngine \<Rightarrow> 'a UnifiedProfileEngine" where
  "merge_identities md5_hexdigest email_arg user_id device_id eng =
     (let key = md5_hexdigest email_arg;
          g = identity_graph eng;
          g1 = (if key \<notin> dom g then g(key \<mapsto> {}) else g)
      in case g1 key of
           None \<Rightarrow> eng\<lparr>identity_graph := g1\<rparr>
         | Some aliases \<Rightarrow>
             eng\<lparr>identity_graph := g1(key \<mapsto> aliases \<union> set [email_arg, user_id, device_id])\<rparr>)"

definition create_profile ::
  "'a Customer \<Rightarrow> 'a UnifiedProfileEngine \<Rightarrow> error + (string \<times> 'a UnifiedProfileEngine)" where
  "create_profile customer eng =
     Inr (customer_id customer, eng\<lparr>profiles := (profiles eng)(customer_id customer \<mapsto> customer)\<rparr>)"

text \<open>The values of the dict that \<open>get_360_view\<close> returns.\<close>

datatype 'a view_value =
    VStr string
  | VNum real
  | VSegments "string list"
  | VCount nat
  | VTime "datetime option"
  | VAttributes "string \<rightharpoonup> 'a"

definition get_360_view ::
  "string \<Rightarrow> 'a UnifiedProfileEngine \<Rightarrow> (string \<rightharpoonup> 'a view_value)" where
  "get_360_view cid eng =
     (if cid \<notin> dom (profiles eng) then Map.empty
      else case profiles eng cid of
             None \<Rightarrow> Map.empty
           | Some customer \<Rightarrow>
               [''id'' \<mapsto> VStr (customer_id customer),
                ''email'' \<mapsto> VStr (email customer),
                ''name'' \<mapsto> VStr (name customer),
                ''lifetime_value'' \<mapsto> VNum (lifetime_value customer),
                ''segments'' \<mapsto> VSegments (map segment_value (segments customer)),
                ''total_events'' \<mapsto> VCount (length (events customer)),
                ''last_activity'' \<mapsto> VTime (last_activity customer),
                ''attributes'' \<mapsto> VAttributes (attributes customer)])"

section \<open>RealtimeSegmentation\<close>

text \<open>
  Each rule is a lambda that calls \<open>datetime.now()\<close> itself, so the five rules of one
  call read the clock at five moments: \<open>now s\<close> is the reading taken by the rule of
  segment \<open>s\<close>. \<open>c.last_activity and ...\<close> is falsy when \<open>last_activity\<close> is
  \<open>None\<close> (a datetime is always truthy).
\<close>

fun rules :: "(CustomerSegment \<Rightarrow> datetime) \<Rightarrow> CustomerSegment \<Rightarrow> 'a Customer \<Rightarrow> bool" where
  "rules now HIGH_VALUE c = (lifetime_value c > 10000)"
| "rules now AT_RISK c =
     (case last_activity c of None \<Rightarrow> False | Some t \<Rightarrow> days (now AT_RISK) t > 30)"
| "rules now DORMANT c =
     (case last_activity c of None \<Rightarrow> False | Some t \<Rightarrow> days (now DORMANT) t > 90)"
| "rules now NEW c = (days (now NEW) (created_at c) < 30)"
| "rules now ACTIVE c =
     (case last_activity c of None \<Rightarrow> False | Some t \<Rightarrow> days (now ACTIVE) t < 7)"

text \<open>The insertion order of the \<open>rules\<close> dict, which the loop follows.\<close>

definition rules_items :: "CustomerSegment list" where
  "rules_items = [HIGH_VALUE, AT_RISK, DORMANT, NEW, ACTIVE]"

type_synonym segment_index = "CustomerSegment \<Rightarrow> string list"

definition new_RealtimeSegmentation :: segment_index where
  "new_RealtimeSegmentation = (\<lambda>s. [])"

text \<open>
  The body of the \<open>for\<close> loop of \<open>segment_customer\<close>; the state is the customer's
  segment list and the reverse index.
\<close>

fun segment_loop ::
  "(CustomerSegment \<Rightarrow> datetime) \<Rightarrow> 'a Customer \<Rightarrow> CustomerSegment list \<Rightarrow>
   CustomerSegment list \<times> segment_index \<Rightarrow> CustomerSegment list \<times> segment_index" where
  "segment_loop now c [] (segs, idx) = (segs, idx)"
| "segment_loop now c (s # rest) (segs, idx) =
     (if rules now s c
      then segment_loop now c rest
             (segs @ [s],
              if customer_id c \<notin> set (idx s) then idx(s := idx s @ [customer_id c]) else idx)
      else segment_loop now c rest (segs, idx))"

definition segment_customer ::
  "(CustomerSegment \<Rightarrow> datetime) \<Rightarrow> 'a Customer \<Rightarrow> segment_index \<Rightarrow> 'a Customer \<times> segment_index" where
  "segment_customer now customer idx =
     (let c0 = customer\<lparr>segments := []\<rparr>;
          r = segment_loop now c0 rules_items (segments c0, idx)
      in (c0\<lparr>segments := fst r\<rparr>, snd r))"

section \<open>PredictiveAnalytics\<close>

type_synonym predictions = "string \<rightharpoonup> (string \<rightharpoonup> real)"

definition new_PredictiveAnalytics :: predictions where
  "new_PredictiveAnalytics = Map.empty"

definition predict_churn :: "datetime \<Rightarrow> 'a Customer \<Rightarrow> predictions \<Rightarrow> real \<times> predictions" where
  "predict_churn now customer preds =
     (let score = (case last_activity customer of
                     None \<Rightarrow> 0
                   | Some t \<Rightarrow> (let days_inactive = days now t
                               in min 1 (real_of_int days_inactive / 90)))
      in (score, preds(customer_id customer \<mapsto> [''churn_risk'' \<mapsto> score])))"

definition predict_ltv :: "'a Customer \<Rightarrow> predictions \<Rightarrow> real \<times> predictions" where
  "predict_ltv customer preds =
     (let base_value = lifetime_value customer;
          activity_multiplier = 1 + real (length (events customer)) / 100;
          predicted_ltv = base_value * activity_multiplier * 1.2;
          preds1 = (if customer_id customer \<notin> dom preds
                    then preds(customer_id customer \<mapsto> Map.empty) else preds)
      in case preds1 (customer_id customer) of
           None \<Rightarrow> (predicted_ltv, preds1)
         | Some entry \<Rightarrow>
             (predicted_ltv,
              preds1(customer_id customer \<mapsto> entry(''predicted_ltv'' \<mapsto> predicted_ltv))))"

section \<open>JourneyOrchestrator\<close>

record 'a JourneyOrchestrator =
  journeys :: "string \<rightharpoonup> (string \<rightharpoonup> 'a) list"
  active_journeys :: "string \<rightharpoonup> string"

definition new_JourneyOrchestrator :: "'a JourneyOrchestrator" where
  "new_JourneyOrchestrator = \<lparr>journeys = Map.empty, active_journeys = Map.empty\<rparr>"

definition define_journey ::
  "string \<Rightarrow> (string \<rightharpoonup> 'a) list \<Rightarrow> 'a JourneyOrchestrator \<Rightarrow> 'a JourneyOrchestrator" where
  "define_journey jname stages jo = jo\<lparr>journeys := (journeys jo)(jname \<mapsto> stages)\<rparr>"

definition enroll_customer ::
  "string \<Rightarrow> string \<Rightarrow> 'a JourneyOrchestrator \<Rightarrow> error + 'a JourneyOrchestrator" where
  "enroll_customer cid journey_name jo =
     (if journey_name \<in> dom (journeys jo)
      then Inr (jo\<lparr>active_journeys := (active_journeys jo)(cid \<mapsto> journey_name)\<rparr>)
      else Inr jo)"

text \<open>
  \<open>advance_journey\<close> looks the enrollment up and logs; neither branch assigns to the
  orchestrator or raises.
\<close>

definition advance_journey ::
  "string \<Rightarrow> int \<Rightarrow> 'a JourneyOrchestrator \<Rightarrow> error + 'a JourneyOrchestrator" where
  "advance_journey cid stage jo =
     (if cid \<in> dom (active_journeys jo) then Inr jo else Inr jo)"

section \<open>PrivacyCompliance\<close>

record consent =
  granted :: bool
  timestamp :: datetime

record deletion_request =
  deleted_customer_id :: string
  processed_at :: datetime

record PrivacyCompliance =
  consent_records :: "string \<rightharpoonup> (string \<rightharpoonup> consent)"
  deletion_requests :: "deletion_request list"

definition new_PrivacyCompliance :: PrivacyCompliance where
  "new_PrivacyCompliance = \<lparr>consent_records = Map.empty, deletion_requests = []\<rparr>"

definition record_consent ::
  "datetime \<Rightarrow> string \<Rightarrow> string \<Rightarrow> bool \<Rightarrow> PrivacyCompliance \<Rightarrow> PrivacyCompliance" where
  "record_consent now cid purpose is_granted pc =
     (let cr = consent_records pc;
          cr1 = (if cid \<notin> dom cr then cr(cid \<mapsto> Map.empty) else cr)
      in case cr1 cid of
           None \<Rightarrow> pc\<lparr>consent_records := cr1\<rparr>
         | Some entry \<Rightarrow>
             pc\<lparr>consent_records :=
                  cr1(cid \<mapsto> entry(purpose \<mapsto> \<lparr>granted = is_granted, timestamp = now\<rparr>))\<rparr>)"

text \<open>
  \<open>process_deletion_request\<close> mutates the \<open>profiles\<close> dict it is handed and its own
  \<open>deletion_requests\<close>; both are returned.
\<close>

definition process_deletion_request ::
  "datetime \<Rightarrow> string \<Rightarrow> (string \<rightharpoonup> 'a Customer) \<Rightarrow> PrivacyCompliance \<Rightarrow>
   error + ((string \<rightharpoonup> 'a Customer) \<times> PrivacyCompliance)" where
  "process_deletion_request now cid profs pc =
     (if cid \<in> dom profs
      then Inr (profs(cid := None),
                pc\<lparr>deletion_requests :=
                     deletion_requests pc @ [\<lparr>deleted_customer_id = cid, processed_at = now\<rparr>]\<rparr>)
      else Inr (profs, pc))"

section \<open>IntelligentCDP\<close>

record 'a IntelligentCDP =
  profile_engine :: "'a UnifiedProfileEngine"
  segmentation :: segment_index
  predictive :: predictions
  journey :: "'a JourneyOrchestrator"
  privacy :: PrivacyCompliance

definition new_IntelligentCDP :: "'a IntelligentCDP" where
  "new_IntelligentCDP =
     \<lparr>profile_engine = new_UnifiedProfileEngine,
      segmentation = new_RealtimeSegmentation,
      predictive = new_PredictiveAnalytics,
      journey = new_JourneyOrchestrator,
      privacy = new_PrivacyCompliance\<rparr>"

text \<open>
  A deletion request on a platform instance: the call
  \<open>cdp.privacy.process_deletion_request(customer_id, cdp.profile_engine.profiles)\<close>.
  The method receives the profile dict and nothing else of the platform.
\<close>

definition process_deletion ::
  "datetime \<Rightarrow> string \<Rightarrow> 'a IntelligentCDP \<Rightarrow> error + 'a IntelligentCDP" where
  "process_deletion now cid cdp =
     (case process_deletion_request now cid (profiles (profile_engine cdp)) (privacy cdp) of
        Inl e \<Rightarrow> Inl e
      | Inr (profs, pc) \<Rightarrow>
          Inr (cdp\<lparr>profile_engine := (profile_engine cdp)\<lparr>profiles := profs\<rparr>, privacy := pc\<rparr>))"

section \<open>Example states\<close>

text \<open>A customer created at time 0 who was never active, worth 20000.\<close>

definition example_customer :: "unit Customer" where
  "example_customer =
     \<lparr>customer_id = ''c1'', email = ''a@x.com'', name = ''A'', attributes = Map.empty,
      events = [], segments = [], lifetime_value = 20000, last_activity = None,
      created_at = 0\<rparr>"

text \<open>A profile store that already holds a profile under \<open>c1\<close> and one under \<open>c2\<close>.\<close>

definition example_engine :: "unit UnifiedProfileEngine" where
  "example_engine =
     \<lparr>profiles = [''c1'' \<mapsto> example_customer\<lparr>name := ''Old''\<rparr>,
                  ''c2'' \<mapsto> example_customer\<lparr>customer_id := ''c2''\<rparr>],
      identity_graph = Map.empty\<rparr>"

text \<open>The orchestrator after a three-stage journey is defined and \<open>c1\<close> is enrolled.\<close>

definition example_orchestrator :: "unit JourneyOrchestrator" where
  "example_orchestrator =
     \<lparr>journeys = [''onboarding'' \<mapsto> [Map.empty, Map.empty, Map.empty]],
      active_journeys = [''c1'' \<mapsto> ''onboarding'']\<rparr>"

text \<open>
  The platform after \<open>create_profile\<close>, \<open>segment_customer\<close> (clock 0),
  \<open>predict_churn\<close>, \<open>predict_ltv\<close> and the enrollment above, all for
  \<open>example_customer\<close>; and the same platform with the profile removed and one deletion
  record, everything else as before.
\<close>

definition example_cdp :: "unit IntelligentCDP" where
  "example_cdp =
     \<lparr>profile_engine =
        \<lparr>profiles = [''c1'' \<mapsto> example_customer\<lparr>segments := [HIGH_VALUE, NEW]\<rparr>],
         identity_graph = Map.empty\<rparr>,
      segmentation = new_RealtimeSegmentation(HIGH_VALUE := [''c1''], NEW := [''c1'']),
      predictive = [''c1'' \<mapsto> [''churn_risk'' \<mapsto> 0, ''predicted_ltv'' \<mapsto> 24000]],
      journey = example_orchestrator,
      privacy = new_PrivacyCompliance\<rparr>"

definition example_cdp_deleted :: "unit IntelligentCDP" where
  "example_cdp_deleted =
     \<lparr>profile_engine = \<lparr>profiles = Map.empty, identity_graph = Map.empty\<rparr>,
      segmentation = new_RealtimeSegmentation(HIGH_VALUE := [''c1''], NEW := [''c1'']),
      predictive = [''c1'' \<mapsto> [''churn_risk'' \<mapsto> 0, ''predicted_ltv'' \<mapsto> 24000]],
      journey = example_orchestrator,
      privacy = \<lparr>consent_records = Map.empty,
                 deletion_requests = [\<lparr>deleted_customer_id = ''c1'', processed_at = 5\<rparr>]\<rparr>\<rparr>"

section \<open>The example states are reachable\<close>

lemma example_orchestrator_reached:
  "enroll_customer ''c1'' ''onboarding''
     (define_journey ''onboarding'' [Map.empty, Map.empty, Map.empty] new_JourneyOrchestrator)
   = Inr example_orchestrator"
  by (simp add: enroll_customer_def define_journey_def new_JourneyOrchestrator_def
      example_orchestrator_def)

lemma example_cdp_reached:
  "create_profile example_customer new_UnifiedProfileEngine
     = Inr (''c1'', \<lparr>profiles = [''c1'' \<mapsto> example_customer], identity_graph = Map.empty\<rparr>)
   \<and> segment_customer (\<lambda>s. 0) example_customer new_RealtimeSegmentation
     = (example_customer\<lparr>segments := [HIGH_VALUE, NEW]\<rparr>, segmentation example_cdp)
   \<and> snd (predict_ltv example_customer
           (snd (predict_churn 0 example_customer new_PredictiveAnalytics)))
     = predictive example_cdp"
  by (simp add: create_profile_def example_customer_def new_UnifiedProfileEngine_def
      segment_customer_def rules_items_def days_def Let_def new_RealtimeSegmentation_def
      example_cdp_def predict_ltv_def predict_churn_def new_PredictiveAnalytics_def fun_eq_iff)

section \<open>Profile creation\<close>

text \<open>
  C10. For every customer \<open>c\<close>, \<open>create_profile(c)\<close> does not fail: it returns \<open>c.id\<close>
  and stores \<open>c\<close> under \<open>c.id\<close>, replacing a profile already stored under that id
  without an error; the profiles under every other id, and the identity graph, are
  unchanged.
\<close>

theorem create_profile_upsert:
  "\<exists>eng'. create_profile c eng = Inr (customer_id c, eng')
     \<and> profiles eng' (customer_id c) = Some c
     \<and> (\<forall>k. k \<noteq> customer_id c \<longrightarrow> profiles eng' k = profiles eng k)
     \<and> identity_graph eng' = identity_graph eng"
  by (simp add: create_profile_def)

text \<open>
  C10 at a store that already holds \<open>c1\<close> and \<open>c2\<close>: the profile under \<open>c1\<close> is
  replaced, the one under \<open>c2\<close> stays.
\<close>

theorem create_profile_upsert_witness:
  "profiles example_engine ''c1'' = Some (example_customer\<lparr>name := ''Old''\<rparr>)
   \<and> ''c2'' \<noteq> customer_id example_customer
   \<and> (\<exists>eng'. create_profile example_customer example_engine = Inr (''c1'', eng')
        \<and> profiles eng' ''c1'' = Some example_customer
        \<and> profiles eng' ''c2'' = Some (example_customer\<lparr>customer_id := ''c2''\<rparr>))"
  using create_profile_upsert [of example_customer example_engine]
  by (auto simp: example_engine_def example_customer_def)

section \<open>Segmentation\<close>

lemma segment_loop_segs:
  "fst (segment_loop now c ss (segs, idx)) = segs @ filter (\<lambda>s. rules now s c) ss"
  by (induction ss arbitrary: segs idx) auto

lemma segment_loop_idx:
  "snd (segment_loop now c ss (segs, idx)) s =
     (if s \<in> set ss \<and> rules now s c \<and> customer_id c \<notin> set (idx s)
      then idx s @ [customer_id c] else idx s)"
  by (induction ss arbitrary: segs idx) auto

lemma rules_reset [simp]: "rules now s (c\<lparr>segments := xs\<rparr>) = rules now s c"
  by (cases s) simp_all

lemma set_rules_items: "set rules_items = UNIV"
proof -
  have "s \<in> set rules_items" for s
    by (cases s) (simp_all add: rules_items_def)
  then show ?thesis by auto
qed

lemma segment_customer_fst:
  "segments (fst (segment_customer now c idx)) = filter (\<lambda>s. rules now s c) rules_items"
  by (simp add: segment_customer_def Let_def segment_loop_segs)

lemma segment_customer_snd:
  "snd (segment_customer now c idx) s =
     (if rules now s c \<and> customer_id c \<notin> set (idx s) then idx s @ [customer_id c] else idx s)"
  by (simp add: segment_customer_def Let_def segment_loop_idx set_rules_items)

text \<open>
  C2. For every customer, whatever segment list it carried before, the segment list that
  \<open>segment_customer\<close> leaves holds exactly the segments whose rule is true at the
  clock reading of that rule, each once: HIGH_VALUE iff \<open>lifetime_value > 10000\<close>;
  AT_RISK iff \<open>last_activity\<close> is present and the whole days since it exceed 30;
  DORMANT likewise with 90; NEW iff the whole days since \<open>created_at\<close> are below 30;
  ACTIVE iff \<open>last_activity\<close> is present and the whole days since it are below 7.
  A rule on an absent \<open>last_activity\<close> is false. Whole days are the floor of the
  difference divided by one day (86400000000 microseconds).
\<close>

theorem segment_customer_rules:
  "set (segments (fst (segment_customer now c idx))) = {s. rules now s c}
   \<and> distinct (segments (fst (segment_customer now c idx)))
   \<and> (HIGH_VALUE \<in> set (segments (fst (segment_customer now c idx)))
        \<longleftrightarrow> lifetime_value c > 10000)
   \<and> (AT_RISK \<in> set (segments (fst (segment_customer now c idx)))
        \<longleftrightarrow> (\<exists>t. last_activity c = Some t \<and> (now AT_RISK - t) div 86400000000 > 30))
   \<and> (DORMANT \<in> set (segments (fst (segment_customer now c idx)))
        \<longleftrightarrow> (\<exists>t. last_activity c = Some t \<and> (now DORMANT - t) div 86400000000 > 90))
   \<and> (NEW \<in> set (segments (fst (segment_customer now c idx)))
        \<longleftrightarrow> (now NEW - created_at c) div 86400000000 < 30)
   \<and> (ACTIVE \<in> set (segments (fst (segment_customer now c idx)))
        \<longleftrightarrow> (\<exists>t. last_activity c = Some t \<and> (now ACTIVE - t) div 86400000000 < 7))"
proof -
  have mem: "s \<in> set (segments (fst (segment_customer now c idx))) \<longleftrightarrow> rules now s c" for s
    by (simp add: segment_customer_fst set_rules_items)
  have s1: "set (segments (fst (segment_customer now c idx))) = {s. rules now s c}"
    using mem by blast
  have s2: "distinct (segments (fst (segment_customer now c idx)))"
    by (simp add: segment_customer_fst rules_items_def)
  show ?thesis
    by (intro conjI s1 s2) (auto simp: mem days_def split: option.splits)
qed

text \<open>
  C2 on three customers at clock 100 days. One created and last active 90 days earlier
  (10 days ago) is NEW only. One created and last active at time 0 (100 days ago) is
  AT_RISK and DORMANT at once. One created and last active 99 days earlier (1 day ago)
  is NEW and ACTIVE at once.
\<close>

theorem segment_customer_rules_witness:
  "segments (fst (segment_customer (\<lambda>s. 8640000000000)
       (example_customer\<lparr>lifetime_value := 1000, last_activity := Some 7776000000000,
                          created_at := 7776000000000\<rparr>) new_RealtimeSegmentation)) = [NEW]
   \<and> segments (fst (segment_customer (\<lambda>s. 8640000000000)
       (example_customer\<lparr>lifetime_value := 1000, last_activity := Some 0\<rparr>)
       new_RealtimeSegmentation)) = [AT_RISK, DORMANT]
   \<and> segments (fst (segment_customer (\<lambda>s. 8640000000000)
       (example_customer\<lparr>lifetime_value := 1000, last_activity := Some 8553600000000,
                          created_at := 8553600000000\<rparr>) new_RealtimeSegmentation)) = [NEW, ACTIVE]"
  using segment_customer_rules [of "\<lambda>s. 8640000000000"
      "example_customer\<lparr>lifetime_value := 1000, last_activity := Some 0\<rparr>"
      new_RealtimeSegmentation]
  by (simp add: segment_customer_fst rules_items_def days_def example_customer_def)

text \<open>
  C3 fails on the code. \<open>segment_customer\<close> resets and rebuilds the customer's own
  segment list, but the reverse index is only appended to. \<open>example_customer\<close> is
  segmented at clock 0, when it is HIGH_VALUE and NEW: its id is listed under both. It
  is segmented again 40 days later, when the NEW rule is false: the customer's segment
  list becomes \<open>[HIGH_VALUE]\<close>, while the index is left as it was and still lists the
  id under NEW.
\<close>

theorem segment_customer_stale_index:
  "segment_customer (\<lambda>s. 0) example_customer new_RealtimeSegmentation
     = (example_customer\<lparr>segments := [HIGH_VALUE, NEW]\<rparr>,
        new_RealtimeSegmentation(HIGH_VALUE := [''c1''], NEW := [''c1'']))
   \<and> segments (fst (segment_customer (\<lambda>s. 3456000000000)
         (example_customer\<lparr>segments := [HIGH_VALUE, NEW]\<rparr>)
         (new_RealtimeSegmentation(HIGH_VALUE := [''c1''], NEW := [''c1''])))) = [HIGH_VALUE]
   \<and> snd (segment_customer (\<lambda>s. 3456000000000)
         (example_customer\<lparr>segments := [HIGH_VALUE, NEW]\<rparr>)
         (new_RealtimeSegmentation(HIGH_VALUE := [''c1''], NEW := [''c1''])))
       = new_RealtimeSegmentation(HIGH_VALUE := [''c1''], NEW := [''c1''])
   \<and> \<not> rules (\<lambda>s. 3456000000000) NEW (example_customer\<lparr>segments := [HIGH_VALUE, NEW]\<rparr>)"
  by (simp add: segment_customer_def rules_items_def Let_def example_customer_def
      new_RealtimeSegmentation_def days_def fun_eq_iff)

section \<open>Predictions\<close>

lemma predict_churn_fst:
  "fst (predict_churn now c preds) =
     (case last_activity c of None \<Rightarrow> 0
      | Some t \<Rightarrow> min 1 (real_of_int ((now - t) div 86400000000) / 90))"
  by (simp add: predict_churn_def Let_def days_def split: option.splits)

lemma predict_churn_entry:
  "snd (predict_churn now c preds) (customer_id c) =
     Some [''churn_risk'' \<mapsto> fst (predict_churn now c preds)]"
  by (simp add: predict_churn_def Let_def)

lemma predict_ltv_entry:
  "\<exists>entry. snd (predict_ltv c preds) (customer_id c) = Some entry
     \<and> entry ''predicted_ltv'' = Some (fst (predict_ltv c preds))
     \<and> entry ''churn_risk'' =
         (case preds (customer_id c) of None \<Rightarrow> None | Some e \<Rightarrow> e ''churn_risk'')"
  by (auto simp: predict_ltv_def Let_def split: option.splits)

text \<open>
  C6 fails on the code in one of its two orders. For \<open>example_customer\<close> and an empty
  prediction store: \<open>predict_ltv\<close> leaves the record \<open>{predicted_ltv: 24000}\<close>; a
  following \<open>predict_churn\<close> replaces the whole record by \<open>{churn_risk: 0}\<close>, so the
  \<open>predicted_ltv\<close> entry is gone. In the opposite order both entries are kept, because
  \<open>predict_ltv\<close> updates the record in place.
\<close>

theorem predict_ltv_then_churn:
  "snd (predict_ltv example_customer new_PredictiveAnalytics)
     = [''c1'' \<mapsto> [''predicted_ltv'' \<mapsto> 24000]]
   \<and> snd (predict_churn 0 example_customer
           (snd (predict_ltv example_customer new_PredictiveAnalytics)))
     = [''c1'' \<mapsto> [''churn_risk'' \<mapsto> 0]]
   \<and> snd (predict_ltv example_customer
           (snd (predict_churn 0 example_customer new_PredictiveAnalytics)))
     = [''c1'' \<mapsto> [''churn_risk'' \<mapsto> 0, ''predicted_ltv'' \<mapsto> 24000]]"
  by (simp add: predict_churn_def predict_ltv_def example_customer_def
      new_PredictiveAnalytics_def Let_def)

text \<open>
  C7, as the code has it. \<open>predict_churn\<close> returns \<open>min(1, days_inactive / 90)\<close> when
  \<open>last_activity\<close> is present, \<open>days_inactive\<close> being the whole days from
  \<open>last_activity\<close> to the clock, and 0 when it is absent. The result is at most 1; it
  is at least 0 whenever \<open>last_activity\<close> is not later than the clock; and it is
  non-decreasing in the whole days since the last activity.
\<close>

theorem predict_churn_score:
  "fst (predict_churn now c preds) =
     (case last_activity c of None \<Rightarrow> 0
      | Some t \<Rightarrow> min 1 (real_of_int ((now - t) div 86400000000) / 90))
   \<and> fst (predict_churn now c preds) \<le> 1
   \<and> (last_activity c = None \<longrightarrow> fst (predict_churn now c preds) = 0)
   \<and> (\<forall>t. last_activity c = Some t \<and> t \<le> now \<longrightarrow> 0 \<le> fst (predict_churn now c preds))
   \<and> (\<forall>t t' now' preds'. \<forall>c' :: 'b Customer.
        last_activity c = Some t \<and> last_activity c' = Some t'
        \<and> (now - t) div 86400000000 \<le> (now' - t') div 86400000000
        \<longrightarrow> fst (predict_churn now c preds) \<le> fst (predict_churn now' c' preds'))"
proof -
  have nonneg: "0 \<le> (now - t) div 86400000000" if "t \<le> now" for t :: int
    using that by (simp add: pos_imp_zdiv_nonneg_iff)
  show ?thesis
    unfolding predict_churn_fst
    by (auto simp: nonneg min_def split: option.splits)
qed

text \<open>
  C7 as stated fails: the result is not always in [0,1]. With a \<open>last_activity\<close> one
  microsecond after the clock reading, \<open>days_inactive\<close> is -1 and the score is -1/90.
\<close>

theorem predict_churn_counterexample:
  "fst (predict_churn 0 (example_customer\<lparr>last_activity := Some 1\<rparr>) Map.empty) = - 1 / 90
   \<and> fst (predict_churn 0 (example_customer\<lparr>last_activity := Some 1\<rparr>) Map.empty) < 0"
  by (simp add: predict_churn_fst example_customer_def)

text \<open>
  The amended C7 on a customer last active at time 0: the score is 1/2 after 45 days, 1
  after 90 days and after 200 days; a customer never active scores 0.
\<close>

theorem predict_churn_score_witness:
  "last_activity (example_customer\<lparr>last_activity := Some 0\<rparr>) = Some 0
   \<and> (0::int) \<le> 3888000000000
   \<and> last_activity example_customer = None
   \<and> fst (predict_churn 3888000000000 (example_customer\<lparr>last_activity := Some 0\<rparr>) Map.empty)
       = 1 / 2
   \<and> fst (predict_churn 17280000000000 (example_customer\<lparr>last_activity := Some 0\<rparr>) Map.empty)
       = 1
   \<and> fst (predict_churn 3888000000000 (example_customer\<lparr>last_activity := Some 0\<rparr>) Map.empty)
       \<le> fst (predict_churn 7776000000000 (example_customer\<lparr>last_activity := Some 0\<rparr>) Map.empty)
   \<and> fst (predict_churn 3888000000000 example_customer Map.empty) = 0"
  using predict_churn_score [of 3888000000000 "example_customer\<lparr>last_activity := Some 0\<rparr>" Map.empty]
    predict_churn_score [of 17280000000000 "example_customer\<lparr>last_activity := Some 0\<rparr>" Map.empty]
    predict_churn_score [of 7776000000000 "example_customer\<lparr>last_activity := Some 0\<rparr>" Map.empty]
    predict_churn_score [of 3888000000000 example_customer Map.empty]
  by (simp add: predict_churn_fst example_customer_def)

text \<open>
  C8. For every customer with a non-negative \<open>lifetime_value\<close> (the event count, a list
  length, is never negative), \<open>predict_ltv\<close> returns
  \<open>lifetime_value * (1 + event_count / 100) * 1.2\<close>, which is at least
  \<open>lifetime_value\<close>.
\<close>

theorem predict_ltv_formula:
  "0 \<le> lifetime_value c \<Longrightarrow>
   fst (predict_ltv c preds) = lifetime_value c * (1 + real (length (events c)) / 100) * 1.2
   \<and> lifetime_value c \<le> fst (predict_ltv c preds)"
proof -
  assume nn: "0 \<le> lifetime_value c"
  have v: "fst (predict_ltv c preds)
             = lifetime_value c * (1 + real (length (events c)) / 100) * 1.2"
    by (simp add: predict_ltv_def Let_def split: option.splits)
  have "1 \<le> (1 + real (length (events c)) / 100) * (1.2::real)"
    by simp
  then have "lifetime_value c * 1
               \<le> lifetime_value c * ((1 + real (length (events c)) / 100) * 1.2)"
    using nn by (rule mult_left_mono)
  then show ?thesis
    using v by (simp add: mult.assoc)
qed

text \<open>
  C8 on \<open>example_customer\<close> with two events: 20000 * 1.02 * 1.2 = 24480.
\<close>

theorem predict_ltv_formula_witness:
  "0 \<le> lifetime_value (example_customer\<lparr>events := [Map.empty, Map.empty]\<rparr>)
   \<and> fst (predict_ltv (example_customer\<lparr>events := [Map.empty, Map.empty]\<rparr>) Map.empty) = 24480
   \<and> lifetime_value (example_customer\<lparr>events := [Map.empty, Map.empty]\<rparr>)
       \<le> fst (predict_ltv (example_customer\<lparr>events := [Map.empty, Map.empty]\<rparr>) Map.empty)"
  using predict_ltv_formula [of "example_customer\<lparr>events := [Map.empty, Map.empty]\<rparr>" Map.empty]
  by (simp add: example_customer_def)

section \<open>Journeys\<close>

text \<open>
  C5, as the code has it. For every customer id, stage and orchestrator,
  \<open>advance_journey\<close> returns without an error and leaves the orchestrator as it was:
  the journey templates and the enrollments are unchanged, whether or not the customer
  is enrolled and whatever the stage is.
\<close>

theorem advance_journey_noop:
  "advance_journey cid stage jo = Inr jo"
  by (simp add: advance_journey_def)

text \<open>
  C5 as stated fails. With \<open>c1\<close> enrolled in the three-stage journey: advancing to
  stage 3 leaves \<open>c1\<close> enrolled in it; a following advance to stage 0 is no
  \<open>NotFound\<close>; advancing \<open>c2\<close>, who is not enrolled, is no \<open>NotFound\<close>; advancing to
  stage 7 is no \<open>InvalidArgument\<close>.
\<close>

theorem advance_journey_counterexample:
  "advance_journey ''c1'' 3 example_orchestrator = Inr example_orchestrator
   \<and> active_journeys example_orchestrator ''c1'' = Some ''onboarding''
   \<and> advance_journey ''c1'' 0 example_orchestrator \<noteq> Inl NotFound
   \<and> ''c2'' \<notin> dom (active_journeys example_orchestrator)
   \<and> advance_journey ''c2'' 0 example_orchestrator \<noteq> Inl NotFound
   \<and> advance_journey ''c1'' 7 example_orchestrator \<noteq> Inl InvalidArgument"
  by (simp add: advance_journey_def example_orchestrator_def)

section \<open>Deletion requests\<close>

text \<open>
  C1, as the code has it. For every customer id present in the profile store, a
  deletion request removes the customer from the profile store and appends exactly one
  deletion record with that id and the clock reading; afterwards \<open>get_360_view\<close> of
  the id returns the empty dict. The segment index, the prediction records, the journey
  templates and enrollments, the identity graph and the consent records are left as
  they were.
\<close>

theorem process_deletion_effect:
  "cid \<in> dom (profiles (profile_engine cdp)) \<Longrightarrow>
   \<exists>cdp'. process_deletion now cid cdp = Inr cdp'
     \<and> profiles (profile_engine cdp') = (profiles (profile_engine cdp))(cid := None)
     \<and> get_360_view cid (profile_engine cdp') = Map.empty
     \<and> deletion_requests (privacy cdp') =
         deletion_requests (privacy cdp) @ [\<lparr>deleted_customer_id = cid, processed_at = now\<rparr>]
     \<and> consent_records (privacy cdp') = consent_records (privacy cdp)
     \<and> identity_graph (profile_engine cdp') = identity_graph (profile_engine cdp)
     \<and> segmentation cdp' = segmentation cdp
     \<and> predictive cdp' = predictive cdp
     \<and> journey cdp' = journey cdp"
  by (simp add: process_deletion_def process_deletion_request_def get_360_view_def)

text \<open>
  C1 as stated fails. After the deletion of \<open>c1\<close> from the example platform, \<open>c1\<close> is
  still listed under HIGH_VALUE in the segment index, its prediction record is still
  there, and it is still enrolled in its journey.
\<close>

theorem process_deletion_counterexample:
  "process_deletion 5 ''c1'' example_cdp = Inr example_cdp_deleted
   \<and> ''c1'' \<in> set (segmentation example_cdp_deleted HIGH_VALUE)
   \<and> predictive example_cdp_deleted ''c1''
       = Some [''churn_risk'' \<mapsto> 0, ''predicted_ltv'' \<mapsto> 24000]
   \<and> active_journeys (journey example_cdp_deleted) ''c1'' = Some ''onboarding''"
  by (simp add: process_deletion_def process_deletion_request_def example_cdp_def
      example_cdp_deleted_def example_orchestrator_def new_PrivacyCompliance_def
      new_RealtimeSegmentation_def)

text \<open>The amended C1 at the example platform, where \<open>c1\<close> is present.\<close>

theorem process_deletion_effect_witness:
  "''c1'' \<in> dom (profiles (profile_engine example_cdp))
   \<and> (\<exists>cdp'. process_deletion 5 ''c1'' example_cdp = Inr cdp'
        \<and> profiles (profile_engine cdp') = Map.empty
        \<and> get_360_view ''c1'' (profile_engine cdp') = Map.empty
        \<and> deletion_requests (privacy cdp')
            = [\<lparr>deleted_customer_id = ''c1'', processed_at = 5\<rparr>])"
  using process_deletion_effect [of "''c1''" example_cdp 5]
  by (auto simp: example_cdp_def new_PrivacyCompliance_def)

text \<open>
  C9. A deletion request for an id that is absent from the profile store returns the
  platform as it was. Hence a second request for the same id changes nothing, whatever
  the first one did; and when the id was present, the two requests together append
  exactly one deletion record, the one of the first request.
\<close>

theorem process_deletion_idempotent:
  "(cid \<notin> dom (profiles (profile_engine cdp)) \<longrightarrow> process_deletion now cid cdp = Inr cdp)
   \<and> (\<exists>cdp1. process_deletion now cid cdp = Inr cdp1
        \<and> process_deletion now2 cid cdp1 = Inr cdp1
        \<and> (cid \<in> dom (profiles (profile_engine cdp)) \<longrightarrow>
             deletion_requests (privacy cdp1) =
               deletion_requests (privacy cdp)
                 @ [\<lparr>deleted_customer_id = cid, processed_at = now\<rparr>]))"
  by (simp add: process_deletion_def process_deletion_request_def)

text \<open>
  C9 at the example platform: \<open>c1\<close> is present, the first request (clock 5) appends
  one record and the second (clock 9) changes nothing; on the platform without \<open>c1\<close> a
  request changes nothing.
\<close>

theorem process_deletion_idempotent_witness:
  "''c1'' \<in> dom (profiles (profile_engine example_cdp))
   \<and> ''c1'' \<notin> dom (profiles (profile_engine example_cdp_deleted))
   \<and> process_deletion 9 ''c1'' example_cdp_deleted = Inr example_cdp_deleted
   \<and> (\<exists>cdp1. process_deletion 5 ''c1'' example_cdp = Inr cdp1
        \<and> process_deletion 9 ''c1'' cdp1 = Inr cdp1
        \<and> deletion_requests (privacy cdp1)
            = [\<lparr>deleted_customer_id = ''c1'', processed_at = 5\<rparr>])"
  using process_deletion_idempotent [of "''c1''" example_cdp 5 9]
    process_deletion_idempotent [of "''c1''" example_cdp_deleted 9 9]
  by (auto simp: example_cdp_def example_cdp_deleted_def new_PrivacyCompliance_def)

section \<open>Identity merging\<close>

lemma merge_identities_eq:
  "merge_identities h e u d eng =
     eng\<lparr>identity_graph := (identity_graph eng)
        (h e \<mapsto> (case identity_graph eng (h e) of None \<Rightarrow> {} | Some s \<Rightarrow> s) \<union> {e, u, d})\<rparr>"
  by (auto simp: merge_identities_def Let_def split: option.splits)

text \<open>
  C4, as the code has it. \<open>merge_identities(email, user_id, device_id)\<close> groups
  aliases by the key of the email alone: it adds the three aliases to the alias set
  under that key, leaves every other key and the profiles unchanged, and looks no alias
  up. Any two merges commute, so the outcome does not depend on their order. Two merges
  with the same email leave one key holding all their aliases; two merges whose emails
  have different keys leave two keys, also when they share a user id.
\<close>

theorem merge_identities_by_email:
  "merge_identities h ea ua da (merge_identities h eb ub db eng)
     = merge_identities h eb ub db (merge_identities h ea ua da eng)
   \<and> identity_graph (merge_identities h e u d eng) (h e)
     = Some ((case identity_graph eng (h e) of None \<Rightarrow> {} | Some s \<Rightarrow> s) \<union> {e, u, d})
   \<and> (\<forall>k. k \<noteq> h e \<longrightarrow> identity_graph (merge_identities h e u d eng) k = identity_graph eng k)
   \<and> profiles (merge_identities h e u d eng) = profiles eng
   \<and> identity_graph (merge_identities h e u' d' (merge_identities h e u d new_UnifiedProfileEngine))
     = [h e \<mapsto> {e, u, d, u', d'}]
   \<and> (h e \<noteq> h e' \<longrightarrow>
        identity_graph (merge_identities h e' u d' (merge_identities h e u d new_UnifiedProfileEngine))
          = [h e \<mapsto> {e, u, d}, h e' \<mapsto> {e', u, d'}])"
proof -
  have comm: "merge_identities h ea ua da (merge_identities h eb ub db eng)
     = merge_identities h eb ub db (merge_identities h ea ua da eng)"
  proof (cases "h ea = h eb")
    case True
    then show ?thesis
      by (auto simp: merge_identities_eq Un_ac insert_commute split: option.splits)
  next
    case False
    then show ?thesis
      by (simp add: merge_identities_eq fun_upd_twist)
  qed
  have same: "identity_graph
       (merge_identities h e u' d' (merge_identities h e u d new_UnifiedProfileEngine))
     = [h e \<mapsto> {e, u, d, u', d'}]"
    by (auto simp: merge_identities_eq new_UnifiedProfileEngine_def)
  have diff: "h e \<noteq> h e' \<longrightarrow>
        identity_graph
          (merge_identities h e' u d' (merge_identities h e u d new_UnifiedProfileEngine))
          = [h e \<mapsto> {e, u, d}, h e' \<mapsto> {e', u, d'}]"
    by (auto simp: merge_identities_eq new_UnifiedProfileEngine_def)
  show ?thesis
    by (intro conjI comm same diff) (simp_all add: merge_identities_eq)
qed

text \<open>
  C4 as stated fails. Merge the email \<open>a@x.com\<close> with the user \<open>u1\<close> (no device: the
  empty string), then merge the user \<open>u1\<close> with the device \<open>d1\<close> (no email: the empty
  string). Whatever the hash function is, the identity graph is not a single key with
  the alias set \<open>{a@x.com, u1, d1}\<close>: the second merge is filed under the key of its
  own email argument.
\<close>

theorem merge_identities_counterexample:
  "\<not> (\<exists>h k. identity_graph
         (merge_identities h '''' ''u1'' ''d1''
            (merge_identities h ''a@x.com'' ''u1'' ''''
               (new_UnifiedProfileEngine :: unit UnifiedProfileEngine)))
       = [k \<mapsto> {''a@x.com'', ''u1'', ''d1''}])"
proof
  assume "\<exists>h k. identity_graph
         (merge_identities h '''' ''u1'' ''d1''
            (merge_identities h ''a@x.com'' ''u1'' ''''
               (new_UnifiedProfileEngine :: unit UnifiedProfileEngine)))
       = [k \<mapsto> {''a@x.com'', ''u1'', ''d1''}]"
  then obtain h k where eq: "identity_graph
         (merge_identities h '''' ''u1'' ''d1''
            (merge_identities h ''a@x.com'' ''u1'' ''''
               (new_UnifiedProfileEngine :: unit UnifiedProfileEngine)))
       = [k \<mapsto> {''a@x.com'', ''u1'', ''d1''}]"
    by blast
  have "\<exists>S. identity_graph
         (merge_identities h '''' ''u1'' ''d1''
            (merge_identities h ''a@x.com'' ''u1'' ''''
               (new_UnifiedProfileEngine :: unit UnifiedProfileEngine))) (h '''')
       = Some S \<and> '''' \<in> S"
    by (simp add: merge_identities_eq)
  then obtain S where "[k \<mapsto> {''a@x.com'', ''u1'', ''d1''}] (h '''') = Some S" "'''' \<in> S"
    unfolding eq by blast
  then show False
    by (auto split: if_splits)
qed

text \<open>
  The amended C4 with the identity function as the hash: two merges with the email
  \<open>a@x.com\<close> leave one key; a merge with the email \<open>b@x.com\<close> that shares the user
  \<open>u1\<close> leaves a second key.
\<close>

theorem merge_identities_by_email_witness:
  "(\<lambda>s. s) ''a@x.com'' \<noteq> (\<lambda>s. s) ''b@x.com''
   \<and> identity_graph (merge_identities (\<lambda>s. s) ''a@x.com'' ''u1'' ''d1''
       (merge_identities (\<lambda>s. s) ''a@x.com'' ''u1'' ''d0''
          (new_UnifiedProfileEngine :: unit UnifiedProfileEngine)))
     = [''a@x.com'' \<mapsto> {''a@x.com'', ''u1'', ''d0'', ''d1''}]
   \<and> identity_graph (merge_identities (\<lambda>s. s) ''b@x.com'' ''u1'' ''d1''
       (merge_identities (\<lambda>s. s) ''a@x.com'' ''u1'' ''d0''
          (new_UnifiedProfileEngine :: unit UnifiedProfileEngine)))
     = [''a@x.com'' \<mapsto> {''a@x.com'', ''u1'', ''d0''},
        ''b@x.com'' \<mapsto> {''b@x.com'', ''u1'', ''d1''}]
   \<and> identity_graph (merge_identities (\<lambda>s. s) ''a@x.com'' ''u1'' ''d0''
          (new_UnifiedProfileEngine :: unit UnifiedProfileEngine)) ''b@x.com''
     = None"
  using merge_identities_by_email
    [where h = "\<lambda>s. s" and e = "''a@x.com''" and u = "''u1''" and d = "''d0''"
       and u' = "''u1''" and d' = "''d1''" and e' = "''b@x.com''"
       and ea = "''b@x.com''" and ua = "''u1''" and da = "''d1''"
       and eb = "''a@x.com''" and ub = "''u1''" and db = "''d0''"
       and eng = "new_UnifiedProfileEngine :: unit UnifiedProfileEngine"]
  by (auto simp: new_UnifiedProfileEngine_def insert_commute)

end
